theory Spec2Isabelle
  imports Main
begin

section \<open>Text primitives\<close>

text \<open>
  Python \<open>str\<close> values are modelled as \<open>string\<close> (lists of 8-bit characters): the model
  covers ASCII text. Case folding (\<open>str.lower\<close>, the \<open>re.I\<close> flag) acts on the 26 ASCII
  letters; \<open>str.strip\<close> removes the ASCII characters for which \<open>str.isspace\<close> holds.
\<close>

definition upper_letters :: string where
  "upper_letters = ''ABCDEFGHIJKLMNOPQRSTUVWXYZ''"

definition lower_letters :: string where
  "lower_letters = ''abcdefghijklmnopqrstuvwxyz''"

definition digit_chars :: string where
  "digit_chars = ''0123456789''"

definition lower_char :: "char \<Rightarrow> char" where
  "lower_char c = (case map_of (zip upper_letters lower_letters) c of None \<Rightarrow> c | Some d \<Rightarrow> d)"

definition lower :: "string \<Rightarrow> string" where
  "lower s = map lower_char s"

definition re_space :: "char \<Rightarrow> bool" where
  \<comment> \<open>the class \<open>\s\<close>: space, tab, line feed, vertical tab, form feed, carriage return\<close>
  "re_space c = (c \<in> set [CHR '' '', CHR 0x09, CHR 0x0A, CHR 0x0B, CHR 0x0C, CHR 0x0D])"

definition py_isspace :: "char \<Rightarrow> bool" where
  \<comment> \<open>\<open>str.isspace\<close> on ASCII: the six above and the separators 0x1C to 0x1F\<close>
  "py_isspace c = (re_space c \<or> c \<in> set [CHR 0x1C, CHR 0x1D, CHR 0x1E, CHR 0x1F])"

definition re_digit :: "char \<Rightarrow> bool" where
  "re_digit c = (c \<in> set digit_chars)"

definition re_word :: "char \<Rightarrow> bool" where
  \<comment> \<open>the class \<open>\w\<close>: letters, digits and the underscore\<close>
  "re_word c = (c \<in> set upper_letters \<or> c \<in> set lower_letters \<or> c \<in> set digit_chars \<or> c = CHR ''_'')"

definition lstrip :: "string \<Rightarrow> string" where
  "lstrip s = dropWhile py_isspace s"

definition rstrip :: "string \<Rightarrow> string" where
  "rstrip s = rev (dropWhile py_isspace (rev s))"

definition strip :: "string \<Rightarrow> string" where
  "strip s = rstrip (lstrip s)"

fun join :: "string \<Rightarrow> string list \<Rightarrow> string" where
  "join sep [] = []"
| "join sep [x] = x"
| "join sep (x # y # ys) = x @ sep @ join sep (y # ys)"

fun startswith :: "string \<Rightarrow> string \<Rightarrow> bool" where
  \<comment> \<open>\<open>s.startswith(p)\<close>, the prefix first\<close>
  "startswith [] s = True"
| "startswith (p # ps) [] = False"
| "startswith (p # ps) (x # xs) = (p = x \<and> startswith ps xs)"

fun contains :: "string \<Rightarrow> string \<Rightarrow> bool" where
  \<comment> \<open>\<open>needle in haystack\<close>, the needle first\<close>
  "contains n [] = (n = [])"
| "contains n (x # xs) = (startswith n (x # xs) \<or> contains n xs)"

fun str_nat :: "nat \<Rightarrow> string" where
  \<comment> \<open>the decimal rendering of a number in an f-string\<close>
  "str_nat n = (if n < 10 then [digit_chars ! n]
                else str_nat (n div 10) @ [digit_chars ! (n mod 10)])"

declare str_nat.simps [simp del]

definition nl :: string where
  "nl = [CHR 0x0A]"


section \<open>Regular expressions\<close>

text \<open>
  The fragment of Python's regular expressions that the source's patterns are written in:
  literal characters (compared case-insensitively, every pattern is used with \<open>re.I\<close>),
  the classes \<open>\s\<close>, \<open>\d\<close>, \<open>.\<close> and \<open>[_\s]\<close>, greedy repetition of a class
  (\<open>+\<close>, \<open>*\<close>, \<open>{3,}\<close>), the greedy option \<open>?\<close>, groups, alternation and the word
  boundary \<open>\b\<close>. A matcher state is the character before the position (for \<open>\b\<close>) and
  the rest of the text; \<open>matches\<close> lists the states in which a match can end, in the
  order a backtracking matcher tries them, so its head is the match Python reports.
\<close>

datatype cls = Space | Digit | AnyChar | UnderscoreOrSpace

datatype regex =
    Eps
  | Lit char
  | Cls cls
  | Rep cls nat
  | Opt regex
  | Seq regex regex
  | Alt regex regex
  | WordB

fun in_cls :: "cls \<Rightarrow> char \<Rightarrow> bool" where
  "in_cls Space c = re_space c"
| "in_cls Digit c = re_digit c"
| "in_cls AnyChar c = (c \<noteq> CHR 0x0A)"
| "in_cls UnderscoreOrSpace c = (c = CHR ''_'' \<or> re_space c)"

type_synonym mstate = "char option \<times> string"

definition advance :: "mstate \<Rightarrow> nat \<Rightarrow> mstate" where
  \<comment> \<open>the state \<open>j\<close> characters further on\<close>
  "advance st j = (if j = 0 then st else (Some (snd st ! (j - 1)), drop j (snd st)))"

definition at_boundary :: "mstate \<Rightarrow> bool" where
  "at_boundary st =
     ((case fst st of None \<Rightarrow> False | Some c \<Rightarrow> re_word c)
      \<noteq> (case snd st of [] \<Rightarrow> False | c # _ \<Rightarrow> re_word c))"

fun matches :: "regex \<Rightarrow> mstate \<Rightarrow> mstate list" where
  "matches Eps st = [st]"
| "matches (Lit c) st =
     (case snd st of [] \<Rightarrow> []
      | x # xs \<Rightarrow> if lower_char x = lower_char c then [(Some x, xs)] else [])"
| "matches (Cls k) st =
     (case snd st of [] \<Rightarrow> []
      | x # xs \<Rightarrow> if in_cls k x then [(Some x, xs)] else [])"
| "matches (Rep k n) st =
     map (advance st) (rev [n ..< Suc (length (takeWhile (in_cls k) (snd st)))])"
| "matches (Opt r) st = matches r st @ [st]"
| "matches (Seq r1 r2) st = concat (map (matches r2) (matches r1 st))"
| "matches (Alt r1 r2) st = matches r1 st @ matches r2 st"
| "matches WordB st = (if at_boundary st then [st] else [])"

fun search_from :: "regex \<Rightarrow> char option \<Rightarrow> string \<Rightarrow> bool" where
  "search_from r p [] = (matches r (p, []) \<noteq> [])"
| "search_from r p (x # xs) = (matches r (p, x # xs) \<noteq> [] \<or> search_from r (Some x) xs)"

definition re_search :: "regex \<Rightarrow> string \<Rightarrow> bool" where
  \<comment> \<open>\<open>re.search(pattern, text, re.I)\<close> as a truth value\<close>
  "re_search r s = search_from r None s"



primrec str :: "string \<Rightarrow> regex" where
  "str [] = Eps"
| "str (c # cs) = Seq (Lit c) (str cs)"

primrec cat :: "regex list \<Rightarrow> regex" where
  "cat [] = Eps"
| "cat (r # rs) = Seq r (cat rs)"

abbreviation sp1 :: regex where
  "sp1 \<equiv> Rep Space 1"

abbreviation sp0 :: regex where
  "sp0 \<equiv> Rep Space 0"

fun ws :: "string list \<Rightarrow> regex" where
  \<comment> \<open>words separated by \<open>\s+\<close>\<close>
  "ws [] = Eps"
| "ws [w] = str w"
| "ws (w # v # vs) = Seq (str w) (Seq sp1 (ws (v # vs)))"


fun alts :: "regex list \<Rightarrow> regex" where
  \<comment> \<open>the alternation \<open>r1|r2|...\<close>\<close>
  "alts [] = Eps"
| "alts [r] = r"
| "alts (r # q # rs) = Alt r (alts (q # rs))"


section \<open>The taxonomy (parser.py)\<close>



section \<open>Documents and external capabilities\<close>

text \<open>
  What \<open>Document(filepath)\<close> gives: the paragraphs' texts and, for every table, its rows of
  cell texts; or the message of the exception it raises (the left injection).
\<close>

record docx =
  paragraphs :: "string list"
  tables :: "string list list list"

type_synonym document = "string + docx"

text \<open>
  The collaborators the engine calls. \<open>db_query q k\<close> is the embedding of \<open>q\<close> followed by
  the query of the passage store for \<open>k\<close> results, \<open>generate_content\<close> is the model call
  returning the texts of the parts of its candidates; both are \<open>None\<close> when the call raises.
  \<open>rag_status\<close> is the first component of \<open>check_rag_database_status()\<close>, and
  \<open>api_key\<close> tells whether a client can be constructed.
\<close>

record capabilities =
  db_query :: "string \<Rightarrow> nat \<Rightarrow> string list option"
  rag_status :: bool
  api_key :: bool
  generate_content :: "string \<Rightarrow> string list option"

definition no_suggestion :: string where
  "no_suggestion = ''[No suggestion available]''"

definition ask :: "capabilities \<Rightarrow> string \<Rightarrow> string \<Rightarrow> string" where
  \<comment> \<open>\<open>GeminiClient.ask\<close> (llm_client.py)\<close>
  "ask caps prompt context =
     (case generate_content caps
             (prompt @ nl @ nl @ ''Context:'' @ nl @
              (if context \<noteq> [] then context else ''No additional context.'')) of
        None \<Rightarrow> no_suggestion
      | Some parts \<Rightarrow>
          (let collected_parts = filter (\<lambda>t. t \<noteq> []) parts
           in if collected_parts \<noteq> [] then strip (join '' '' collected_parts)
              else no_suggestion))"

definition retrieve_relevant_passages :: "capabilities \<Rightarrow> string \<Rightarrow> nat \<Rightarrow> string list" where
  \<comment> \<open>rag.py: any failure is caught and gives no passages\<close>
  "retrieve_relevant_passages caps query_text top_k =
     (case db_query caps query_text top_k of None \<Rightarrow> [] | Some documents \<Rightarrow> documents)"


section \<open>The pattern classifier (parser.py)\<close>











section \<open>Retrieval helpers (rag.py)\<close>

definition retrieve_for_compliance_check ::
    "capabilities \<Rightarrow> string \<Rightarrow> string \<Rightarrow> nat \<Rightarrow> string list" where
  "retrieve_for_compliance_check caps doc_type section_content top_k =
     retrieve_relevant_passages caps
       (doc_type @ '' compliance requirements '' @ take 150 section_content) top_k"

text \<open>
  \<open>list(set(all_context))\<close> enumerates a set of strings; Python fixes no order for it (the
  order follows the strings' hashes, which are salted per process). The enumeration is
  therefore a parameter, \<open>set_order\<close>, applied to the passages in the order they were
  collected.
\<close>

definition get_rag_enhanced_suggestion ::
    "capabilities \<Rightarrow> (string list \<Rightarrow> string list) \<Rightarrow> string \<Rightarrow> string \<Rightarrow> string \<Rightarrow> string" where
  "get_rag_enhanced_suggestion caps set_order issue_description doc_type section_content =
     (let queries = [doc_type @ '' '' @ issue_description,
                     ''ADGM compliance '' @ issue_description,
                     doc_type @ '' requirements standard clauses''];
          all_context = concat (map (\<lambda>query. retrieve_relevant_passages caps query 5) queries);
          unique_context = set_order all_context
      in join nl (take 15 unique_context))"

definition get_document_requirements :: "capabilities \<Rightarrow> string \<Rightarrow> string" where
  "get_document_requirements caps doc_type =
     (let requirements = retrieve_relevant_passages caps
                           (doc_type @ '' mandatory requirements essential clauses ADGM'') 8
      in if requirements \<noteq> [] then join nl (take 5 requirements)
         else ''No specific requirements found in knowledge base for '' @ doc_type)"


section \<open>The compliance rule engine (rules.py)\<close>

datatype severity = High | Medium | Low

record Issue =
  section' :: string
  issue :: string
  severity :: severity
  suggestion :: string
  citations :: "string list"
  document_type :: string

definition get_rag_powered_suggestion ::
    "capabilities \<Rightarrow> (string list \<Rightarrow> string list) \<Rightarrow> string \<Rightarrow> string \<Rightarrow> string \<Rightarrow> string" where
  \<comment> \<open>nothing called here raises (retrieval and \<open>ask\<close> catch their own failures), so the
      \<open>except\<close> branch of the source is never taken\<close>
  "get_rag_powered_suggestion caps set_order prompt doc_type context =
     (let rag_context = get_rag_enhanced_suggestion caps set_order prompt doc_type context;
          full_context = (if context \<noteq> [] then rag_context @ nl @ nl @ context else rag_context);
          short_prompt = ''Based on ADGM legal requirements, provide a 1-2 sentence suggestion. '' @
                         ''Include specific legal references if available.'' @ nl @ nl @ prompt;
          response = ask caps short_prompt full_context
      in if response = [] \<or> startswith ''[No suggestion'' response \<or> startswith ''[No response'' response
         then ''Review '' @ doc_type @ '' against ADGM requirements: '' @ strip prompt
         else strip response)"

definition requirement_patterns :: "(string \<times> regex) list" where
  "requirement_patterns = [
     (''signature'', alts [Seq (str ''sign'') (Alt (str ''ed'') (str ''ature'')),
                           str ''execution'', str ''witnessed'']),
     (''date'', alts [str ''date'', ws [''effective'', ''date''], str ''commencement'']),
     (''parties'', alts [str ''parties'', ws [''contracting'', ''parties'']]),
     (''jurisdiction'', alts [str ''jurisdiction'', ws [''governing'', ''law''], str ''ADGM'']),
     (''address'', alts [str ''address'', ws [''registered'', ''office'']]),
     (''termination'', alts [str ''termination'', str ''expiry'', str ''end'']),
     (''liability'', alts [str ''liability'', str ''indemnity'', str ''damages'']),
     (''confidentiality'', alts [str ''confidential'',
                                 cat [str ''non'', Opt (Cls AnyChar), str ''disclosure'']])]"

definition check_document_against_rag_requirements ::
    "capabilities \<Rightarrow> string \<Rightarrow> string \<Rightarrow> string list" where
  "check_document_against_rag_requirements caps doc_type full_text =
     (let requirements_text = get_document_requirements caps doc_type
      in if contains ''No specific requirements'' requirements_text then []
         else map fst (filter (\<lambda>(req_name, pattern).
                                  contains req_name (lower requirements_text)
                                  \<and> \<not> re_search pattern full_text)
                        requirement_patterns))"

definition rag_requirement_issues ::
    "capabilities \<Rightarrow> (string list \<Rightarrow> string list) \<Rightarrow> string \<Rightarrow> string \<Rightarrow> Issue list" where
  \<comment> \<open>the block "RAG-enhanced requirement checking"\<close>
  "rag_requirement_issues caps set_order doc_type full_text =
     (if rag_status caps then
        map (\<lambda>req.
               (let ctx = retrieve_for_compliance_check caps doc_type (''missing '' @ req) 5;
                    combined_ctx = join nl ctx
                in \<lparr>section' = ''General'',
                    issue = ''Missing requirement identified by legal knowledge: '' @ req,
                    severity = Medium,
                    suggestion = get_rag_powered_suggestion caps set_order
                                   (''Document missing: '' @ req) doc_type combined_ctx,
                    citations = [''ADGM Legal Knowledge Base''],
                    document_type = doc_type\<rparr>))
            (check_document_against_rag_requirements caps doc_type full_text)
      else [])"

definition corporate_docs :: "string list" where
  "corporate_docs = [''Articles of Association'', ''Memorandum of Association'',
                     ''Board Resolution'', ''Shareholder Resolution'']"

definition adgm_marker :: regex where
  "adgm_marker = cat [WordB, str ''ADGM'', WordB]"

definition uae_federal_marker :: regex where
  "uae_federal_marker = alts [str ''UAE Federal Court'', str ''onshore UAE'',
                              str ''Dubai Courts'', str ''UAE Federal Law'']"

definition jurisdiction_keyword :: regex where
  "jurisdiction_keyword = alts [str ''jurisdiction'', str ''law'', str ''court'', str ''governed'']"

primrec first_index :: "('a \<Rightarrow> bool) \<Rightarrow> 'a list \<Rightarrow> nat option" where
  \<comment> \<open>\<open>next((i for i, p in enumerate(xs) if P(p)), ...)\<close>\<close>
  "first_index P [] = None"
| "first_index P (x # xs) = (if P x then Some 0 else map_option Suc (first_index P xs))"

definition jurisdiction_citation :: string where
  \<comment> \<open>the source's literal, whose dash is stored as the UTF-8 bytes of three code points\<close>
  "jurisdiction_citation =
     ''Companies Regulations 2020 s.6'' @
     [CHR 0xC3, CHR 0xA2, CHR 0xE2, CHR 0x82, CHR 0xAC, CHR 0xE2, CHR 0x80, CHR 0x9C] @ ''12''"

definition jurisdiction_fails :: "string \<Rightarrow> bool" where
  \<comment> \<open>\<open>has_uae_federal or not has_adgm\<close>\<close>
  "jurisdiction_fails full_text =
     (re_search uae_federal_marker full_text \<or> \<not> re_search adgm_marker full_text)"

definition jurisdiction_issues ::
    "capabilities \<Rightarrow> (string list \<Rightarrow> string list) \<Rightarrow> string \<Rightarrow> string list \<Rightarrow> string \<Rightarrow> Issue list" where
  "jurisdiction_issues caps set_order doc_type texts full_text =
     (if doc_type \<in> set corporate_docs \<and> jurisdiction_fails full_text then
        (let idx = (case first_index (re_search jurisdiction_keyword) texts of
                      Some i \<Rightarrow> i | None \<Rightarrow> 0);
             ctx = (if rag_status caps
                    then join nl (retrieve_for_compliance_check caps doc_type ''jurisdiction ADGM law'' 5)
                    else ''ADGM jurisdiction required for corporate documents'');
             prompt = ''Jurisdiction issue in '' @ doc_type @ ''. Text: '' @
                      (if idx < length texts then texts ! idx else ''Not found'')
         in [\<lparr>section' = ''Paragraph '' @ str_nat (idx + 1),
              issue = ''Jurisdiction not specific to ADGM or references UAE Federal law'',
              severity = High,
              suggestion = get_rag_powered_suggestion caps set_order prompt doc_type ctx,
              citations = [jurisdiction_citation],
              document_type = doc_type\<rparr>])
      else [])"

definition required_fields :: "(string \<times> regex) list" where
  "required_fields = [
     (''full name'', cat [Opt (cat [str ''full'', sp1]), str ''name'']),
     (''date of birth'', alts [cat [Opt (cat [ws [''date'', ''of''], sp1]), str ''birth''],
                               str ''DOB'', str ''born'']),
     (''nationality'', alts [str ''nationality'', str ''citizen'']),
     (''passport'', alts [str ''passport'', ws [''ID'', ''number'']]),
     (''address'', alts [str ''address'', str ''residence''])]"

definition ubo_issues ::
    "capabilities \<Rightarrow> (string list \<Rightarrow> string list) \<Rightarrow> string \<Rightarrow> string \<Rightarrow> Issue list" where
  "ubo_issues caps set_order doc_type full_text =
     (if doc_type = ''UBO Declaration'' then
        concat (map (\<lambda>(field_name, pattern).
          if \<not> re_search pattern full_text then
            (let ctx = (if rag_status caps
                        then join nl (retrieve_for_compliance_check caps doc_type
                                        (''UBO '' @ field_name @ '' requirements'') 3)
                        else ''UBO declarations must include '' @ field_name);
                 prompt = ''UBO declaration missing: '' @ field_name @ ''.''
             in [\<lparr>section' = ''General'',
                  issue = ''Missing UBO field: '' @ field_name,
                  severity = High,
                  suggestion = get_rag_powered_suggestion caps set_order prompt doc_type ctx,
                  citations = [''Beneficial Ownership & Control Regulations 2022''],
                  document_type = doc_type\<rparr>])
          else [])
        required_fields)
      else [])"

definition employment_requirements :: "(string \<times> regex) list" where
  "employment_requirements = [
     (''job title/position'', cat [Opt (cat [str ''job'', sp1]),
                                   alts [str ''title'', str ''position'', str ''role'']]),
     (''salary/compensation'', alts [str ''salary'', str ''wage'', str ''compensation'',
                                     str ''remuneration'', str ''pay'']),
     (''working hours'', alts [ws [''working'', ''hours''], ws [''work'', ''schedule''],
                               ws [''hours'', ''of'', ''work'']]),
     (''probation period'', alts [str ''probation'', ws [''trial'', ''period'']]),
     (''termination clause'', alts [str ''termination'', str ''dismiss'', ws [''notice'', ''period'']]),
     (''leave entitlement'', alts [str ''leave'', str ''holiday'', str ''vacation'',
                                   ws [''sick'', ''leave''], ws [''annual'', ''leave'']])]"

definition employment_issues ::
    "capabilities \<Rightarrow> (string list \<Rightarrow> string list) \<Rightarrow> string \<Rightarrow> string \<Rightarrow> Issue list" where
  "employment_issues caps set_order doc_type full_text =
     (if doc_type = ''Employment Contract'' then
        concat (map (\<lambda>(req_name, pattern).
          if \<not> re_search pattern full_text then
            (let ctx = (if rag_status caps
                        then join nl (retrieve_for_compliance_check caps doc_type
                                        (''employment '' @ req_name @ '' ADGM requirements'') 4)
                        else ''Employment contracts must specify '' @ req_name);
                 prompt = ''Employment contract missing: '' @ req_name @ ''.''
             in [\<lparr>section' = ''General'',
                  issue = ''Missing '' @ req_name,
                  severity = Medium,
                  suggestion = get_rag_powered_suggestion caps set_order prompt doc_type ctx,
                  citations = [''Employment Regulations 2019''],
                  document_type = doc_type\<rparr>])
          else [])
        employment_requirements)
      else [])"

definition signature_patterns :: "regex list" where
  "signature_patterns = [
     Seq (str ''sign'') (Alt (str ''ed'') (str ''ature'')),
     cat [str ''date'', Opt (Lit (CHR '':'')), sp0, Rep UnderscoreOrSpace 3],
     ws [''executed'', ''on''],
     str ''witness'']"

definition signature_issues ::
    "capabilities \<Rightarrow> (string list \<Rightarrow> string list) \<Rightarrow> string \<Rightarrow> string list \<Rightarrow> Issue list" where
  "signature_issues caps set_order doc_type texts =
     (let has_signature =
            list_ex (\<lambda>text. list_ex (\<lambda>pattern. re_search pattern text) signature_patterns) texts
      in if \<not> has_signature then
           (let ctx = (if rag_status caps
                       then join nl (retrieve_for_compliance_check caps doc_type
                                       ''signature execution requirements'' 3)
                       else ''Documents must be properly executed with signatures'')
            in [\<lparr>section' = ''End of Document'',
                 issue = ''Missing signature block or execution clause'',
                 severity = (if doc_type \<in> set [''Employment Contract'', ''Commercial Agreement'']
                             then Medium else Low),
                 suggestion = get_rag_powered_suggestion caps set_order
                                ''Missing signature block'' doc_type ctx,
                 citations = [''Companies Regulations 2020''],
                 document_type = doc_type\<rparr>])
         else [])"

definition empty_document_issue :: "string \<Rightarrow> Issue" where
  "empty_document_issue doc_type =
     \<lparr>section' = ''General'',
      issue = ''Document appears to be empty or unreadable'',
      severity = High,
      suggestion = ''Please check the document format and content.'',
      citations = [],
      document_type = doc_type\<rparr>"

definition error_issue :: "string \<Rightarrow> string \<Rightarrow> Issue" where
  \<comment> \<open>the \<open>except\<close> branch, \<open>e\<close> the message of the exception\<close>
  "error_issue e doc_type =
     \<lparr>section' = ''General'',
      issue = ''Error analyzing document: '' @ take 100 e,
      severity = High,
      suggestion = ''Please check document format and try again.'',
      citations = [],
      document_type = doc_type\<rparr>"

definition red_flags ::
    "capabilities \<Rightarrow> (string list \<Rightarrow> string list) \<Rightarrow> document \<Rightarrow> string \<Rightarrow> Issue list" where
  "red_flags caps set_order d doc_type =
     (case d of
        Inl e \<Rightarrow> [error_issue e doc_type]
      | Inr doc \<Rightarrow>
          (let texts = filter (\<lambda>p. strip p \<noteq> []) (paragraphs doc);
               full_text = join nl texts
           in if texts = [] then [empty_document_issue doc_type]
              else rag_requirement_issues caps set_order doc_type full_text
                   @ jurisdiction_issues caps set_order doc_type texts full_text
                   @ ubo_issues caps set_order doc_type full_text
                   @ employment_issues caps set_order doc_type full_text
                   @ signature_issues caps set_order doc_type texts))"


section \<open>The checklist reconciler (checklist.py)\<close>

definition ADGM_CHECKLIST :: "(string \<times> string list) list" where
  "ADGM_CHECKLIST = [
     (''Company Incorporation'', [
        ''Articles of Association'', ''Memorandum of Association'',
        ''Incorporation Application Form'', ''UBO Declaration'', ''Board Resolution'',
        ''Register of Members and Directors'', ''Shareholder Resolution'',
        ''Change of Registered Address Notice'']),
     (''Licensing Regulatory Filings'', [
        ''Licensing Regulatory Filing'', ''Renewal Application Form'', ''Compliance Declaration'']),
     (''Employment HR Contracts'', [''Employment Contract'']),
     (''Commercial Agreements'', [''Commercial Agreement'']),
     (''Compliance Risk Policies'', [''Compliance Risk Policy''])]"

text \<open>
  \<open>missing\<close> is \<open>list(required - found)\<close>, a list made from a set, in no order that Python
  fixes: the model returns the set. \<open>problematic\<close> is built by appending and keeps its order.
  \<open>issues\<close> is optional in the source (\<open>issues=None\<close>).
\<close>

definition verify_checklist ::
    "string list \<Rightarrow> string \<Rightarrow> Issue list option \<Rightarrow> string set \<times> string list" where
  "verify_checklist found_types process issues =
     (case map_of ADGM_CHECKLIST process of
        None \<Rightarrow> ({}, [])
      | Some req \<Rightarrow>
          (let required = set req;
               found = set found_types;
               missing = required - found;
               problematic =
                 (case issues of
                    None \<Rightarrow> []
                  | Some iss \<Rightarrow>
                      fold (\<lambda>i problematic.
                              (let dt = document_type i
                               in if dt \<in> required \<and> dt \<in> found \<and> dt \<notin> set problematic
                                  then problematic @ [dt] else problematic))
                           iss [])
           in (missing, problematic)))"


section \<open>Specification-side notions and sample inputs\<close>




text \<open>The specification's "deduplicated, in first-seen order".\<close>

fun first_seen :: "'a list \<Rightarrow> 'a list" where
  "first_seen [] = []"
| "first_seen (x # xs) = x # first_seen (filter (\<lambda>y. y \<noteq> x) xs)"

definition issues_of :: "Issue list option \<Rightarrow> Issue list" where
  "issues_of issues = (case issues of None \<Rightarrow> [] | Some iss \<Rightarrow> iss)"




definition issue_for :: "string \<Rightarrow> Issue" where
  \<comment> \<open>some issue recorded against a document type\<close>
  "issue_for t = empty_document_issue t"

(* more sample inputs *)


section \<open>The pattern classifier: scores and the maximum\<close>



























section \<open>The checklist reconciler: missing and problematic types\<close>

lemma set_first_seen: "set (first_seen xs) = set xs"
  by (induction xs rule: first_seen.induct) auto

lemma distinct_first_seen: "distinct (first_seen xs)"
  by (induction xs rule: first_seen.induct) (auto simp: set_first_seen)

lemma first_seen_filter_commute:
  "first_seen (filter P xs) = filter P (first_seen xs)"
proof (induction xs rule: first_seen.induct)
  case 1 show ?case by simp
next
  case (2 x xs)
  have comm: "filter (\<lambda>y. y \<noteq> x) (filter P xs) = filter P (filter (\<lambda>y. y \<noteq> x) xs)"
    by (simp add: conj_commute)
  show ?case
  proof (cases "P x")
    case True
    then show ?thesis using 2 comm by simp
  next
    case False
    have "filter P (filter (\<lambda>y. y \<noteq> x) xs) = filter P xs"
      using False by (induction xs) auto
    then show ?thesis using False 2 comm by simp
  qed
qed

lemma fold_problematic:
  assumes f: "\<And>i p. f i p = (if document_type i \<in> required \<and> document_type i \<in> found \<and> document_type i \<notin> set p
                          then p @ [document_type i] else p)"
  shows "distinct acc \<Longrightarrow>
   fold f iss acc
   = acc @ first_seen (filter (\<lambda>t. t \<notin> set acc) (filter (\<lambda>t. t \<in> required \<and> t \<in> found) (map document_type iss)))"
proof (induction iss arbitrary: acc)
  case Nil
  then show ?case by simp
next
  case (Cons i iss)
  let ?dt = "document_type i"
  let ?Z = "filter (\<lambda>t. t \<in> required \<and> t \<in> found) (map document_type iss)"
  have unroll: "fold f (i # iss) acc = fold f iss (f i acc)" by simp
  show ?case
  proof (cases "?dt \<in> required \<and> ?dt \<in> found \<and> ?dt \<notin> set acc")
    case True
    have step: "f i acc = acc @ [?dt]" using True by (simp add: f)
    have d: "distinct (acc @ [?dt])" using Cons.prems True by simp
    have eq: "filter (\<lambda>y. y \<noteq> ?dt) (filter (\<lambda>t. t \<notin> set acc) ?Z) = filter (\<lambda>t. t \<notin> set (acc @ [?dt])) ?Z"
      unfolding filter_filter by (rule filter_cong) auto
    have "filter (\<lambda>t. t \<notin> set acc) (filter (\<lambda>t. t \<in> required \<and> t \<in> found) (map document_type (i # iss)))
               = ?dt # filter (\<lambda>t. t \<notin> set acc) ?Z"
      using True by simp
    then have rhs: "first_seen (filter (\<lambda>t. t \<notin> set acc) (filter (\<lambda>t. t \<in> required \<and> t \<in> found) (map document_type (i # iss))))
               = ?dt # first_seen (filter (\<lambda>t. t \<notin> set (acc @ [?dt])) ?Z)"
      by (simp only: first_seen.simps eq)
    show ?thesis unfolding unroll step rhs Cons.IH[OF d] by simp
  next
    case False
    have step: "f i acc = acc" using False by (simp add: f)
    have rhs: "filter (\<lambda>t. t \<notin> set acc) (filter (\<lambda>t. t \<in> required \<and> t \<in> found) (map document_type (i # iss)))
               = filter (\<lambda>t. t \<notin> set acc) ?Z"
      using False by auto
    show ?thesis unfolding unroll step rhs by (rule Cons.IH[OF Cons.prems])
  qed
qed

lemma problematic_first_seen:
  "fold (\<lambda>i problematic.
           (let dt = document_type i
            in if dt \<in> required \<and> dt \<in> found \<and> dt \<notin> set problematic
               then problematic @ [dt] else problematic)) iss []
   = first_seen (filter (\<lambda>t. t \<in> required \<and> t \<in> found) (map document_type iss))"
proof -
  have "fold (\<lambda>i problematic.
           (let dt = document_type i
            in if dt \<in> required \<and> dt \<in> found \<and> dt \<notin> set problematic
               then problematic @ [dt] else problematic)) iss []
      = [] @ first_seen (filter (\<lambda>t. t \<notin> set []) (filter (\<lambda>t. t \<in> required \<and> t \<in> found) (map document_type iss)))"
    by (rule fold_problematic) (simp_all add: Let_def)
  then show ?thesis by simp
qed

lemma verify_checklist_Some:
  "map_of ADGM_CHECKLIST process = Some R \<Longrightarrow>
   verify_checklist F process issues =
     (set R - set F,
      first_seen (filter (\<lambda>t. t \<in> set R \<and> t \<in> set F) (map document_type (issues_of issues))))"
  by (cases issues) (simp_all add: verify_checklist_def issues_of_def problematic_first_seen[unfolded Let_def] Let_def)

text \<open>
  C8: for a process of the process map with required types \<open>R\<close>, any found types \<open>F\<close> and any
  issues, the missing types together with \<open>R \<inter> F\<close> are exactly \<open>R\<close>, and no missing type is
  problematic.
\<close>

theorem checklist_partition:
  assumes "map_of ADGM_CHECKLIST process = Some R"
  shows "fst (verify_checklist F process issues) \<union> (set R \<inter> set F) = set R
       \<and> fst (verify_checklist F process issues) \<inter> set (snd (verify_checklist F process issues)) = {}"
  unfolding verify_checklist_Some[OF assms] by (auto simp: set_first_seen)

theorem checklist_partition_witness:
  "map_of ADGM_CHECKLIST ''Employment HR Contracts'' = Some [''Employment Contract'']
   \<and> fst (verify_checklist [] ''Employment HR Contracts'' None) = {''Employment Contract''}
   \<and> snd (verify_checklist [] ''Employment HR Contracts'' None) = []"
proof -
  have h: "map_of ADGM_CHECKLIST ''Employment HR Contracts'' = Some [''Employment Contract'']"
    by (simp add: ADGM_CHECKLIST_def)
  have v: "snd (verify_checklist [] ''Employment HR Contracts'' None) = []"
    by (simp add: verify_checklist_def h)
  show ?thesis using h v checklist_partition[OF h, of "[]" None] by simp
qed

text \<open>
  C9: for a process outside the process map both results are empty; otherwise
  \<open>problematic\<close> lists, without repetition and in the order of their first occurrence in
  \<open>issues\<close>, exactly the required and found types that some issue names as its
  \<open>document_type\<close>.
\<close>

theorem problematic_exact:
  "(map_of ADGM_CHECKLIST process = None \<longrightarrow> verify_checklist F process issues = ({}, []))
   \<and> (map_of ADGM_CHECKLIST process = Some R \<longrightarrow>
        snd (verify_checklist F process issues)
          = first_seen (filter (\<lambda>t. t \<in> set R \<and> t \<in> set F) (map document_type (issues_of issues)))
        \<and> distinct (snd (verify_checklist F process issues))
        \<and> set (snd (verify_checklist F process issues))
            = {t. t \<in> set R \<and> t \<in> set F \<and> (\<exists>i. i \<in> set (issues_of issues) \<and> document_type i = t)})"
proof (intro conjI impI)
  assume "map_of ADGM_CHECKLIST process = None"
  then show "verify_checklist F process issues = ({}, [])"
    by (simp add: verify_checklist_def)
next
  assume h: "map_of ADGM_CHECKLIST process = Some R"
  show "snd (verify_checklist F process issues)
          = first_seen (filter (\<lambda>t. t \<in> set R \<and> t \<in> set F) (map document_type (issues_of issues)))"
    by (simp add: verify_checklist_Some[OF h])
  show "distinct (snd (verify_checklist F process issues))"
    by (simp add: verify_checklist_Some[OF h] distinct_first_seen)
  show "set (snd (verify_checklist F process issues))
            = {t. t \<in> set R \<and> t \<in> set F \<and> (\<exists>i. i \<in> set (issues_of issues) \<and> document_type i = t)}"
    by (auto simp: verify_checklist_Some[OF h] set_first_seen)
qed

theorem problematic_exact_witness:
  "verify_checklist [''Board Resolution''] ''No Such Process'' (Some [issue_for ''Board Resolution'']) = ({}, [])
   \<and> snd (verify_checklist [''UBO Declaration'', ''Board Resolution'', ''Employment Contract'']
             ''Company Incorporation''
             (Some [issue_for ''Board Resolution'', issue_for ''Employment Contract'',
                    issue_for ''UBO Declaration'', issue_for ''Board Resolution'',
                    issue_for ''Articles of Association'']))
       = [''Board Resolution'', ''UBO Declaration'']"
proof -
  have h1: "map_of ADGM_CHECKLIST ''No Such Process'' = None"
    by (simp add: ADGM_CHECKLIST_def)
  have h2: "map_of ADGM_CHECKLIST ''Company Incorporation'' = Some (snd (hd ADGM_CHECKLIST))"
    by (simp add: ADGM_CHECKLIST_def)
  show ?thesis
    using problematic_exact[of "''No Such Process''" "[''Board Resolution'']" "Some [issue_for ''Board Resolution'']" "[]"]
          problematic_exact[of "''Company Incorporation''" "[''UBO Declaration'', ''Board Resolution'', ''Employment Contract'']"
             "Some [issue_for ''Board Resolution'', issue_for ''Employment Contract'',
                    issue_for ''UBO Declaration'', issue_for ''Board Resolution'',
                    issue_for ''Articles of Association'']" "snd (hd ADGM_CHECKLIST)"]
          h1 h2
    by (simp add: issues_of_def issue_for_def empty_document_issue_def ADGM_CHECKLIST_def)
qed

end
